theory Spec2Isabelle
  imports Complex_Main
begin

section \<open>Absorbing Markov chain of a bounded-retry access process\<close>

text \<open>
  The program is one notebook cell, \<^verbatim>\<open>Simulacion_Modificada_Markov_RACH.ipynb\<close>.
  It has an analytic part (the matrices \<^verbatim>\<open>Q\<close>, \<^verbatim>\<open>R\<close>, the fundamental matrix
  \<^verbatim>\<open>N = inv(I - Q)\<close>, the absorption matrix \<^verbatim>\<open>N @ R\<close>) and a Monte Carlo part
  (\<^verbatim>\<open>intento_usuario\<close> and the loop over \<^verbatim>\<open>range(num_pruebas)\<close>).

  The analytic part is given twice. First in exact arithmetic, where a Python float
  is the real number it stands for and no operation rounds (\<open>teorico\<close>); this is the
  reading in which the chain's identities hold exactly. Then with the rounding of the
  machine after every operation (\<open>teorico_r\<close>), which with binary64 rounding
  (\<open>redondeo\<close>) gives the doubles the cell computes; with no rounding the second
  reading is the first. The Monte Carlo part only compares floats and counts with
  Python integers (\<open>int\<close>), so it has one reading.

  The values the cell binds at its top (\<^verbatim>\<open>p_exito = 0.60\<close>, \<^verbatim>\<open>seed=123\<close>,
  \<^verbatim>\<open>num_pruebas = 1_000_000\<close>) are arguments of the definitions, and the cell's own
  values are given as constants. The number of attempts is no variable of the
  source: it is the literal 3 of the matrix shapes, of \<^verbatim>\<open>range(1, 4)\<close> and of
  \<^verbatim>\<open>total_intentos += 3\<close>, and stays a literal here.
\<close>

subsection \<open>Errors the cell can raise\<close>

text \<open>
  \<^verbatim>\<open>np.linalg.inv\<close> raises \<^verbatim>\<open>LinAlgError\<close> (not square, or a zero pivot),
  the true division \<^verbatim>\<open>exitos / num_pruebas\<close> of two Python integers raises
  \<^verbatim>\<open>ZeroDivisionError\<close> for a zero divisor, and \<^verbatim>\<open>np.random.default_rng\<close>
  raises \<^verbatim>\<open>ValueError\<close> for a negative seed.
\<close>

datatype error = LinAlgError | ZeroDivisionError | ValueError

subsection \<open>Arrays\<close>

text \<open>A two-dimensional \<^verbatim>\<open>np.array\<close> is the list of its rows.\<close>

type_synonym vector = "real list"
type_synonym matrix = "real list list"

text \<open>\<^verbatim>\<open>np.identity(n)\<close> and \<^verbatim>\<open>np.ones(n)\<close>.\<close>

definition identity :: "nat \<Rightarrow> matrix" where
  "identity n = map (\<lambda>i. map (\<lambda>j. if i = j then 1 else 0) [0..<n]) [0..<n]"

definition ones :: "nat \<Rightarrow> vector" where
  "ones n = replicate n 1"

text \<open>Elementwise \<^verbatim>\<open>A - B\<close> of two arrays of one shape.\<close>

definition resta :: "matrix \<Rightarrow> matrix \<Rightarrow> matrix" where
  "resta A B = map2 (map2 (-)) A B"

text \<open>
  The operator \<^verbatim>\<open>@\<close>: \<open>dot\<close> on two vectors (\<^verbatim>\<open>N[0] @ np.ones(3)\<close>),
  \<open>vecmat\<close> on a row and a matrix, \<open>matmul\<close> on two matrices (\<^verbatim>\<open>N @ R\<close>).
\<close>

definition dot :: "vector \<Rightarrow> vector \<Rightarrow> real" where
  "dot v w = sum_list (map2 (*) v w)"

definition vecmat :: "vector \<Rightarrow> matrix \<Rightarrow> vector" where
  "vecmat v B = map (dot v) (transpose B)"

definition matmul :: "matrix \<Rightarrow> matrix \<Rightarrow> matrix" where
  "matmul A B = map (\<lambda>v. vecmat v B) A"

subsection \<open>Matrix inversion\<close>

text \<open>
  \<^verbatim>\<open>np.linalg.inv\<close> is library code (LAPACK's LU solver with partial pivoting).
  Here it is what that computes in exact arithmetic: elimination on the matrix
  extended by the identity, column by column, the pivot being the entry of largest
  absolute value at or below the diagonal, and \<^verbatim>\<open>LinAlgError\<close> when that pivot is
  zero. A matrix this exact elimination returns is an inverse of its argument
  (\<open>gauss_jordan_inv\<close>, \<open>final_inv\<close> below). The library tests the pivot it has
  computed in doubles (\<open>linalg_inv_r\<close> below); the two tests agree where no operation
  before the test rounds, as on a triangular matrix, and may differ elsewhere.
\<close>

definition escala :: "real \<Rightarrow> vector \<Rightarrow> vector" where
  "escala c v = map ((*) c) v"

definition combina :: "vector \<Rightarrow> real \<Rightarrow> vector \<Rightarrow> vector" where
  "combina v c w = map2 (\<lambda>x y. x - c * y) v w"

definition buscar_pivote :: "matrix \<Rightarrow> nat \<Rightarrow> nat" where
  "buscar_pivote M k =
     fold (\<lambda>r mejor. if \<bar>M ! mejor ! k\<bar> < \<bar>M ! r ! k\<bar> then r else mejor)
       [Suc k..<length M] k"

definition eliminar :: "nat \<Rightarrow> matrix \<Rightarrow> error + matrix" where
  "eliminar k M =
     (let r = buscar_pivote M k; piv = M ! r ! k in
      if piv = 0 then Inl LinAlgError
      else
        let M1 = (M[k := M ! r])[r := M ! k];
            fila = escala (1 / piv) (M1 ! k)
        in Inr (map (\<lambda>i. if i = k then fila else combina (M1 ! i) (M1 ! i ! k) fila)
                  [0..<length M1]))"

fun gauss_jordan :: "nat list \<Rightarrow> matrix \<Rightarrow> error + matrix" where
  "gauss_jordan [] M = Inr M"
| "gauss_jordan (k # ks) M =
     (case eliminar k M of Inl e \<Rightarrow> Inl e | Inr M' \<Rightarrow> gauss_jordan ks M')"

definition linalg_inv :: "matrix \<Rightarrow> error + matrix" where
  "linalg_inv A =
     (let n = length A in
      if list_ex (\<lambda>fila. length fila \<noteq> n) A then Inl LinAlgError
      else case gauss_jordan [0..<n] (map2 (@) A (identity n)) of
             Inl e \<Rightarrow> Inl e
           | Inr M \<Rightarrow> Inr (map (drop n) M))"







subsection \<open>The chain and its analytic solution, in exact arithmetic\<close>

text \<open>
  \<^verbatim>\<open>p_fallo = 1 - p_exito\<close>, then the two blocks of the transition matrix:
  \<open>Q\<close> among the transient states S0, S1, S2 and \<open>R\<close> from them to the absorbing
  states S3 (success) and S4 (failure).
\<close>

definition p_fallo :: "real \<Rightarrow> real" where
  "p_fallo p_exito = 1 - p_exito"

definition Q :: "real \<Rightarrow> matrix" where
  "Q p_exito =
     [[0, p_fallo p_exito, 0],
      [0, 0, p_fallo p_exito],
      [0, 0, 0]]"

definition R :: "real \<Rightarrow> matrix" where
  "R p_exito =
     [[p_exito, 0],
      [p_exito, 0],
      [p_exito, p_fallo p_exito]]"

text \<open>\<^verbatim>\<open>I - Q\<close> and the fundamental matrix \<^verbatim>\<open>N = np.linalg.inv(I - Q)\<close>.\<close>

definition I_menos_Q :: "real \<Rightarrow> matrix" where
  "I_menos_Q p_exito = resta (identity 3) (Q p_exito)"

definition N :: "real \<Rightarrow> error + matrix" where
  "N p_exito = linalg_inv (I_menos_Q p_exito)"

text \<open>
  The three analytic results read from row 0: \<^verbatim>\<open>absorcion[0, 0]\<close>,
  \<^verbatim>\<open>absorcion[0, 1]\<close> and \<^verbatim>\<open>N[0] @ np.ones(3)\<close>, in this order. An error of
  the inversion ends the cell, so it is the result.
\<close>

definition teorico :: "real \<Rightarrow> error + real \<times> real \<times> real" where
  "teorico p_exito =
     (case N p_exito of
        Inl e \<Rightarrow> Inl e
      | Inr n \<Rightarrow>
          let absorcion = matmul n (R p_exito)
          in Inr (absorcion ! 0 ! 0, absorcion ! 0 ! 1, dot (n ! 0) (ones 3)))"

subsection \<open>The analytic solution in double precision\<close>

text \<open>
  Rounding to binary64, to the nearest and on a tie to the even significand:
  \<open>exponente\<close> finds the binade of a positive number (\<open>2 ^ e \<le> x < 2 ^ (e + 1)\<close>) by
  halving and doubling, \<open>ulp\<close> is the spacing of the doubles there (52 bits below
  the leading one), \<open>entero_par\<close> rounds to an integer. This is the rounding of the
  normal range: overflow to infinity, subnormal numbers and NaN are not in it, and
  the properties below use it on numbers of moderate size only.
\<close>

primrec exponente :: "nat \<Rightarrow> real \<Rightarrow> int" where
  "exponente 0 x = 0"
| "exponente (Suc k) x =
     (if 2 \<le> x then exponente k (x / 2) + 1
      else if x < 1 then exponente k (2 * x) - 1
      else 0)"

definition entero_par :: "real \<Rightarrow> int" where
  "entero_par y =
     (let f = \<lfloor>y\<rfloor>; d = y - of_int f in
      if d < 1 / 2 then f
      else if 1 / 2 < d then f + 1
      else if even f then f else f + 1)"

definition ulp :: "real \<Rightarrow> real" where
  "ulp x =
     (let e = exponente 1100 \<bar>x\<bar> - 52
      in if 0 \<le> e then 2 ^ nat e else 1 / 2 ^ nat (- e))"

definition redondeo :: "real \<Rightarrow> real" where
  "redondeo x = (if x = 0 then 0 else of_int (entero_par (x / ulp x)) * ulp x)"

text \<open>
  The analytic part of the cell again, every arithmetic operation followed by the
  rounding \<open>fl\<close>. The constants 0 and 1 of the arrays are doubles already. A product of
  a row and a column is summed from the left, each product rounded and then each
  sum; the library may sum in another order or fuse a product with a sum, so the
  numbers of this reading are stated only at the cell's own success probability and
  at 0, where every such order gives the same doubles. The inversion rounds the same elimination;
  on \<open>I - Q\<close> every operation of it but one multiplies by 0 or 1 or adds 0, so any
  order of the library's operations gives the same matrix there. On other matrices
  the library's rounded pivots need not be those of this elimination, and nothing is
  stated of them.
\<close>

definition p_fallo_r :: "(real \<Rightarrow> real) \<Rightarrow> real \<Rightarrow> real" where
  "p_fallo_r fl p_exito = fl (1 - p_exito)"

definition Q_r :: "(real \<Rightarrow> real) \<Rightarrow> real \<Rightarrow> matrix" where
  "Q_r fl p_exito =
     [[0, p_fallo_r fl p_exito, 0],
      [0, 0, p_fallo_r fl p_exito],
      [0, 0, 0]]"

definition R_r :: "(real \<Rightarrow> real) \<Rightarrow> real \<Rightarrow> matrix" where
  "R_r fl p_exito =
     [[p_exito, 0],
      [p_exito, 0],
      [p_exito, p_fallo_r fl p_exito]]"

definition resta_r :: "(real \<Rightarrow> real) \<Rightarrow> matrix \<Rightarrow> matrix \<Rightarrow> matrix" where
  "resta_r fl A B = map2 (map2 (\<lambda>x y. fl (x - y))) A B"

definition dot_r :: "(real \<Rightarrow> real) \<Rightarrow> vector \<Rightarrow> vector \<Rightarrow> real" where
  "dot_r fl v w = foldl (\<lambda>s (x, y). fl (s + fl (x * y))) 0 (zip v w)"

definition vecmat_r :: "(real \<Rightarrow> real) \<Rightarrow> vector \<Rightarrow> matrix \<Rightarrow> vector" where
  "vecmat_r fl v B = map (dot_r fl v) (transpose B)"

definition matmul_r :: "(real \<Rightarrow> real) \<Rightarrow> matrix \<Rightarrow> matrix \<Rightarrow> matrix" where
  "matmul_r fl A B = map (\<lambda>v. vecmat_r fl v B) A"

definition escala_r :: "(real \<Rightarrow> real) \<Rightarrow> real \<Rightarrow> vector \<Rightarrow> vector" where
  "escala_r fl c v = map (\<lambda>x. fl (c * x)) v"

definition combina_r :: "(real \<Rightarrow> real) \<Rightarrow> vector \<Rightarrow> real \<Rightarrow> vector \<Rightarrow> vector" where
  "combina_r fl v c w = map2 (\<lambda>x y. fl (x - fl (c * y))) v w"

definition eliminar_r :: "(real \<Rightarrow> real) \<Rightarrow> nat \<Rightarrow> matrix \<Rightarrow> error + matrix" where
  "eliminar_r fl k M =
     (let r = buscar_pivote M k; piv = M ! r ! k in
      if piv = 0 then Inl LinAlgError
      else
        let M1 = (M[k := M ! r])[r := M ! k];
            fila = escala_r fl (fl (1 / piv)) (M1 ! k)
        in Inr (map (\<lambda>i. if i = k then fila
                          else combina_r fl (M1 ! i) (M1 ! i ! k) fila)
                  [0..<length M1]))"

fun gauss_jordan_r :: "(real \<Rightarrow> real) \<Rightarrow> nat list \<Rightarrow> matrix \<Rightarrow> error + matrix" where
  "gauss_jordan_r fl [] M = Inr M"
| "gauss_jordan_r fl (k # ks) M =
     (case eliminar_r fl k M of Inl e \<Rightarrow> Inl e | Inr M' \<Rightarrow> gauss_jordan_r fl ks M')"

definition linalg_inv_r :: "(real \<Rightarrow> real) \<Rightarrow> matrix \<Rightarrow> error + matrix" where
  "linalg_inv_r fl A =
     (let n = length A in
      if list_ex (\<lambda>fila. length fila \<noteq> n) A then Inl LinAlgError
      else case gauss_jordan_r fl [0..<n] (map2 (@) A (identity n)) of
             Inl e \<Rightarrow> Inl e
           | Inr M \<Rightarrow> Inr (map (drop n) M))"

definition I_menos_Q_r :: "(real \<Rightarrow> real) \<Rightarrow> real \<Rightarrow> matrix" where
  "I_menos_Q_r fl p_exito = resta_r fl (identity 3) (Q_r fl p_exito)"

definition N_r :: "(real \<Rightarrow> real) \<Rightarrow> real \<Rightarrow> error + matrix" where
  "N_r fl p_exito = linalg_inv_r fl (I_menos_Q_r fl p_exito)"

definition teorico_r :: "(real \<Rightarrow> real) \<Rightarrow> real \<Rightarrow> error + real \<times> real \<times> real" where
  "teorico_r fl p_exito =
     (case N_r fl p_exito of
        Inl e \<Rightarrow> Inl e
      | Inr n \<Rightarrow>
          let absorcion = matmul_r fl n (R_r fl p_exito)
          in Inr (absorcion ! 0 ! 0, absorcion ! 0 ! 1, dot_r fl (n ! 0) (ones 3)))"

subsection \<open>The chain of any number of attempts, as the specification words it\<close>




subsection \<open>The random generator\<close>

text \<open>
  \<^verbatim>\<open>rng = np.random.default_rng(seed=123)\<close> binds a generator object to the
  module-level name \<^verbatim>\<open>rng\<close>; each \<^verbatim>\<open>rng.random()\<close> returns the next value of
  the sequence its seed fixes and moves the generator on. The bit generator is library
  code, so the sequence of a seed is an argument (\<open>bit_generator\<close>); the state of the
  generator is that sequence and the number of values already drawn. \<open>default_rng\<close>
  is the generator of a seed the library accepts; the library's refusal of a negative
  seed is in \<open>celda_monte_carlo\<close> below.
\<close>

record generator =
  fuente :: "nat \<Rightarrow> real"
  pos :: nat

definition default_rng :: "(int \<Rightarrow> nat \<Rightarrow> real) \<Rightarrow> int \<Rightarrow> generator" where
  "default_rng bit_generator seed = \<lparr>fuente = bit_generator seed, pos = 0\<rparr>"

definition rng_random :: "generator \<Rightarrow> real \<times> generator" where
  "rng_random g = (fuente g (pos g), g\<lparr>pos := pos g + 1\<rparr>)"

text \<open>The generator after \<open>k\<close> more draws.\<close>

definition avanza :: "nat \<Rightarrow> generator \<Rightarrow> generator" where
  "avanza k g = g\<lparr>pos := pos g + k\<rparr>"

text \<open>
  What the library promises of \<^verbatim>\<open>random()\<close>: every value lies in the half-open
  interval from 0 to 1. It is a hypothesis where a property needs it, never part of
  a definition.
\<close>

definition uniforme :: "generator \<Rightarrow> bool" where
  "uniforme g = (\<forall>k. 0 \<le> fuente g k \<and> fuente g k < 1)"

subsection \<open>The Monte Carlo simulation\<close>

text \<open>
  \<^verbatim>\<open>intento_usuario\<close> reads the module-level \<^verbatim>\<open>rng\<close>, so the model takes the
  generator and returns it with the result. \<open>intentos\<close> is its \<^verbatim>\<open>for\<close> loop over
  the attempt numbers still to come: a draw below \<^verbatim>\<open>prob_exito\<close> returns the
  attempt number at once, and the exhausted loop returns 0.
\<close>

fun intentos :: "int list \<Rightarrow> real \<Rightarrow> generator \<Rightarrow> int \<times> generator" where
  "intentos [] prob_exito g = (0, g)"
| "intentos (i # resto) prob_exito g =
     (let (u, g') = rng_random g
      in if u < prob_exito then (i, g') else intentos resto prob_exito g')"

definition intento_usuario :: "real \<Rightarrow> generator \<Rightarrow> int \<times> generator" where
  "intento_usuario prob_exito g = intentos (map int [1..<4]) prob_exito g"

text \<open>The module-level variables the simulation writes.\<close>

record estado =
  rng :: generator
  total_intentos :: int
  exitos :: int
  fracasos :: int

text \<open>One pass through the body of \<^verbatim>\<open>for _ in range(num_pruebas)\<close>.\<close>

definition iteracion :: "real \<Rightarrow> estado \<Rightarrow> estado" where
  "iteracion p_exito s =
     (let (resultado, g) = intento_usuario p_exito (rng s) in
      if resultado > 0
      then s\<lparr>rng := g, total_intentos := total_intentos s + resultado,
              exitos := exitos s + 1\<rparr>
      else s\<lparr>rng := g, total_intentos := total_intentos s + 3,
              fracasos := fracasos s + 1\<rparr>)"

text \<open>The loop, by the number of passes left.\<close>

primrec simular :: "real \<Rightarrow> nat \<Rightarrow> estado \<Rightarrow> estado" where
  "simular p_exito 0 s = s"
| "simular p_exito (Suc k) s = simular p_exito k (iteracion p_exito s)"

text \<open>
  The assignments before the loop (\<^verbatim>\<open>rng = ...\<close>, \<^verbatim>\<open>total_intentos = 0\<close>,
  \<^verbatim>\<open>exitos = 0\<close>, \<^verbatim>\<open>fracasos = 0\<close>) overwrite whatever an earlier run of the
  cell left in these variables; then \<^verbatim>\<open>range(num_pruebas)\<close> is run, which is empty
  for a negative \<^verbatim>\<open>num_pruebas\<close>.
\<close>

definition inicio :: "(int \<Rightarrow> nat \<Rightarrow> real) \<Rightarrow> int \<Rightarrow> estado \<Rightarrow> estado" where
  "inicio bit_generator seed s =
     s\<lparr>rng := default_rng bit_generator seed, total_intentos := 0,
       exitos := 0, fracasos := 0\<rparr>"

definition monte_carlo ::
  "(int \<Rightarrow> nat \<Rightarrow> real) \<Rightarrow> int \<Rightarrow> real \<Rightarrow> int \<Rightarrow> estado \<Rightarrow> estado" where
  "monte_carlo bit_generator seed p_exito num_pruebas s =
     simular p_exito (nat num_pruebas) (inicio bit_generator seed s)"

text \<open>
  The Monte Carlo part of the cell from its first statement: \<^verbatim>\<open>default_rng\<close>
  raises \<^verbatim>\<open>ValueError\<close> for a negative seed, before any counter is assigned;
  otherwise the run is \<open>monte_carlo\<close>.
\<close>

definition celda_monte_carlo ::
  "(int \<Rightarrow> nat \<Rightarrow> real) \<Rightarrow> int \<Rightarrow> real \<Rightarrow> int \<Rightarrow> estado \<Rightarrow> error + estado" where
  "celda_monte_carlo bit_generator seed p_exito num_pruebas s =
     (if seed < 0 then Inl ValueError
      else Inr (monte_carlo bit_generator seed p_exito num_pruebas s))"

text \<open>
  The three empirical results, \<^verbatim>\<open>exitos / num_pruebas\<close>,
  \<^verbatim>\<open>fracasos / num_pruebas\<close> and \<^verbatim>\<open>total_intentos / num_pruebas\<close>: Python's true
  division of integers, which raises for a zero divisor.
\<close>

definition division :: "int \<Rightarrow> int \<Rightarrow> error + real" where
  "division a b =
     (if b = 0 then Inl ZeroDivisionError else Inr (real_of_int a / real_of_int b))"

definition resultados_simulados :: "int \<Rightarrow> estado \<Rightarrow> error + real \<times> real \<times> real" where
  "resultados_simulados num_pruebas s =
     (case division (exitos s) num_pruebas of
        Inl e \<Rightarrow> Inl e
      | Inr pe \<Rightarrow>
          (case division (fracasos s) num_pruebas of
             Inl e \<Rightarrow> Inl e
           | Inr pf \<Rightarrow>
               (case division (total_intentos s) num_pruebas of
                  Inl e \<Rightarrow> Inl e
                | Inr m \<Rightarrow> Inr (pe, pf, m))))"

text \<open>
  The per-trial procedure as the specification words it, for comparison with
  \<open>intento_usuario\<close>: the first attempt index among 1, 2, 3 whose draw is below the
  success probability, the draw of attempt \<open>i\<close> being the \<open>i\<close>-th value the
  generator gives from where it stands; \<open>None\<close> when no attempt succeeds.
\<close>

definition primer_exito :: "real \<Rightarrow> generator \<Rightarrow> nat option" where
  "primer_exito p g = List.find (\<lambda>i. fuente g (pos g + i - 1) < p) [1, 2, 3]"

text \<open>
  Two runs compared: \<open>mismos_contadores\<close> holds of two states with the same three
  counters and the same number of values drawn, and \<open>coinciden m\<close> of two generators
  that give the same next \<open>m\<close> values.
\<close>

definition mismos_contadores :: "estado \<Rightarrow> estado \<Rightarrow> bool" where
  "mismos_contadores s1 s2 =
     (total_intentos s1 = total_intentos s2 \<and> exitos s1 = exitos s2 \<and>
      fracasos s1 = fracasos s2 \<and> pos (rng s1) = pos (rng s2))"

definition coinciden :: "nat \<Rightarrow> generator \<Rightarrow> generator \<Rightarrow> bool" where
  "coinciden m g1 g2 = (\<forall>k<m. fuente g1 (pos g1 + k) = fuente g2 (pos g2 + k))"

text \<open>A state for a first run of the cell, when nothing has been assigned before.\<close>

definition estado_cero :: estado where
  "estado_cero =
     \<lparr>rng = \<lparr>fuente = (\<lambda>k. 0), pos = 0\<rparr>, total_intentos = 0, exitos = 0, fracasos = 0\<rparr>"

text \<open>
  The values the cell itself binds. \<open>p_exito_celda\<close> is the number the literal
  \<^verbatim>\<open>0.60\<close> denotes, \<open>p_exito_doble\<close> the double Python makes of it.
\<close>

definition p_exito_celda :: real where "p_exito_celda = 0.60"
definition seed_celda :: int where "seed_celda = 123"
definition num_pruebas_celda :: int where "num_pruebas_celda = 1000000"
definition p_exito_doble :: real where "p_exito_doble = redondeo 0.60"

section \<open>Properties\<close>

subsection \<open>The analytic results in closed form\<close>

lemma I_menos_Q_eq: "I_menos_Q p = [[1, - (1 - p), 0], [0, 1, - (1 - p)], [0, 0, 1]]"
  by (simp add: I_menos_Q_def resta_def identity_def Q_def p_fallo_def upt_rec eval_nat_numeral)


lemma N_eq: "N p = Inr [[1, 1 - p, (1 - p)\<^sup>2], [0, 1, 1 - p], [0, 0, 1]]"
  by (simp add: N_def I_menos_Q_eq linalg_inv_def identity_def upt_rec eval_nat_numeral
      eliminar_def buscar_pivote_def escala_def combina_def power2_eq_square algebra_simps)

lemma transpose_R: "transpose (R p) = [[p, p, p], [0, 0, p_fallo p]]"
  by (simp add: R_def)

lemma teorico_eq:
  "teorico p = Inr (1 - (1 - p) ^ 3, (1 - p) ^ 3, 1 + (1 - p) + (1 - p)\<^sup>2)"
proof -
  have "teorico p =
      Inr (p + (1 - p) * p + (1 - p)\<^sup>2 * p, (1 - p)\<^sup>2 * (1 - p), 1 + (1 - p) + (1 - p)\<^sup>2)"
    by (simp add: teorico_def N_eq matmul_def vecmat_def dot_def transpose_R ones_def
        p_fallo_def numeral_3_eq_3)
  moreover have "p + (1 - p) * p + (1 - p)\<^sup>2 * p = 1 - (1 - p) ^ 3"
    by (simp add: power2_eq_square power3_eq_cube algebra_simps)
  moreover have "(1 - p)\<^sup>2 * (1 - p) = (1 - p) ^ 3"
    by (simp add: power2_eq_square power3_eq_cube)
  ultimately show ?thesis by simp
qed

subsection \<open>The analytic results in double precision\<close>

lemma exponente_numeral:
  "exponente (numeral k) x =
     (if 2 \<le> x then exponente (pred_numeral k) (x / 2) + 1
      else if x < 1 then exponente (pred_numeral k) (2 * x) - 1
      else 0)"
  by (simp add: numeral_eq_Suc)

lemmas red = redondeo_def ulp_def exponente_numeral entero_par_def Let_def

lemma redondeo_0: "redondeo 0 = 0"
  by (simp add: redondeo_def)

lemma redondeo_1: "redondeo 1 = 1"
  by (simp add: red)

lemma p_exito_doble_eq: "p_exito_doble = 5404319552844595 / 2 ^ 53"
  by (simp add: p_exito_doble_def red)

lemma q_doble:
  "p_fallo_r redondeo (5404319552844595 / 2 ^ 53) = 3602879701896397 / 2 ^ 53"
  by (simp add: p_fallo_r_def red)

lemma I_menos_Q_doble:
  "I_menos_Q_r redondeo p_exito_doble =
     [[1, - (3602879701896397 / 2 ^ 53), 0],
      [0, 1, - (3602879701896397 / 2 ^ 53)],
      [0, 0, 1]]"
  unfolding p_exito_doble_eq I_menos_Q_r_def Q_r_def q_doble
  by (simp add: resta_r_def identity_def upt_rec eval_nat_numeral red)

lemma N_doble:
  "N_r redondeo p_exito_doble =
     Inr [[1, 3602879701896397 / 2 ^ 53, 1441151880758559 / 2 ^ 53],
          [0, 1, 3602879701896397 / 2 ^ 53],
          [0, 0, 1]]"
  unfolding N_r_def I_menos_Q_doble
  by (simp add: linalg_inv_r_def identity_def upt_rec eval_nat_numeral
      eliminar_r_def buscar_pivote_def escala_r_def combina_r_def red)

lemma transpose_R_doble:
  "transpose (R_r redondeo p_exito_doble) =
     [[5404319552844595 / 2 ^ 53, 5404319552844595 / 2 ^ 53, 5404319552844595 / 2 ^ 53],
      [0, 0, 3602879701896397 / 2 ^ 53]]"
  unfolding p_exito_doble_eq R_r_def q_doble by simp

lemma teorico_doble:
  "teorico_r redondeo p_exito_doble =
     Inr (131730289100587 / 2 ^ 47, 4611686018427389 / 2 ^ 56, 7025615418697974 / 2 ^ 52)"
  unfolding teorico_r_def N_doble
  by (simp add: matmul_r_def vecmat_r_def dot_r_def transpose_R_doble ones_def
      eval_nat_numeral red)

text \<open>For any rounding that keeps 0 and 1, the inversion of \<open>I - Q\<close> meets no zero pivot.\<close>

lemma I_menos_Q_r_eq:
  assumes "fl 0 = 0" "fl 1 = 1"
  shows "I_menos_Q_r fl p =
     [[1, fl (- fl (1 - p)), 0], [0, 1, fl (- fl (1 - p))], [0, 0, 1]]"
  using assms
  by (simp add: I_menos_Q_r_def resta_r_def identity_def Q_r_def p_fallo_r_def upt_rec
      eval_nat_numeral)

lemma N_r_sin_error:
  assumes "fl 0 = 0" "fl 1 = 1"
  shows "\<exists>n. N_r fl p = Inr n"
  unfolding N_r_def I_menos_Q_r_eq [OF assms]
  using assms
  by (simp add: linalg_inv_r_def identity_def upt_rec eval_nat_numeral
      eliminar_r_def buscar_pivote_def escala_r_def combina_r_def)

lemma teorico_r_sin_error:
  assumes "fl 0 = 0" "fl 1 = 1"
  shows "\<exists>r. teorico_r fl p = Inr r"
  using N_r_sin_error [OF assms, of p] by (auto simp: teorico_r_def Let_def)

text \<open>Without rounding the second reading is the first.\<close>

lemma foldl_suma:
  "foldl (\<lambda>s (x, y). s + x * y) a ps = a + sum_list (map (\<lambda>(x, y). x * y) ps)"
  for a :: real
  by (induction ps arbitrary: a) (auto simp: algebra_simps)

lemma dot_r_id: "dot_r (\<lambda>x. x) v w = dot v w"
  by (simp add: dot_r_def dot_def foldl_suma)

lemma teorico_r_id: "teorico_r (\<lambda>x. x) p = teorico p"
proof -
  have [simp]: "escala_r (\<lambda>x. x) = escala" "combina_r (\<lambda>x. x) = combina"
    by (auto simp: escala_r_def escala_def combina_r_def combina_def fun_eq_iff)
  have el: "eliminar_r (\<lambda>x. x) = eliminar"
    by (auto simp: eliminar_r_def eliminar_def fun_eq_iff Let_def)
  have gj: "gauss_jordan_r (\<lambda>x. x) ks M = gauss_jordan ks M" for ks M
    by (induction ks arbitrary: M) (simp_all add: el split: sum.splits)
  have inv: "linalg_inv_r (\<lambda>x. x) = linalg_inv"
    by (auto simp: linalg_inv_r_def linalg_inv_def gj fun_eq_iff Let_def)
  have mm: "matmul_r (\<lambda>x. x) = matmul"
    by (auto simp: matmul_r_def matmul_def vecmat_r_def vecmat_def dot_r_id fun_eq_iff)
  have "N_r (\<lambda>x. x) p = N p"
    by (simp add: N_r_def N_def inv I_menos_Q_r_def I_menos_Q_def resta_r_def resta_def
        Q_r_def Q_def p_fallo_r_def p_fallo_def)
  then show ?thesis
    by (simp add: teorico_r_def teorico_def mm dot_r_id R_r_def R_def p_fallo_r_def
        p_fallo_def Let_def split: sum.splits)
qed

text \<open>
  C1, as the code has it. With the cell's \<^verbatim>\<open>p_exito = 0.60\<close> (and its three
  attempts) the analytic results are the success probability 0.936, which is
  \<open>1 - (1 - p)\<^sup>3\<close>, the failure probability 0.064 and the expected number of attempts
  1.56, which is \<open>1 + (1 - p) + (1 - p)\<^sup>2\<close>, exactly so in exact arithmetic. In the
  doubles of the cell the three results are 0.9359999999999999,
  0.06400000000000002 and 1.56 (the double nearest to 1.56), each within \<open>10\<^sup>-\<^sup>1\<^sup>6\<close> of
  the exact value.
\<close>

theorem teorico_celda:
  "teorico p_exito_celda = Inr (0.936, 0.064, 1.56)
   \<and> 1 - (1 - p_exito_celda) ^ 3 = 0.936
   \<and> 1 + (1 - p_exito_celda) + (1 - p_exito_celda)\<^sup>2 = 1.56
   \<and> teorico_r (\<lambda>x. x) p_exito_celda = teorico p_exito_celda
   \<and> teorico_r redondeo p_exito_doble =
       Inr (131730289100587 / 2 ^ 47, 4611686018427389 / 2 ^ 56,
            7025615418697974 / 2 ^ 52)
   \<and> \<bar>131730289100587 / 2 ^ 47 - 0.936\<bar> \<le> (1 / 10 ^ 16 :: real)
   \<and> \<bar>4611686018427389 / 2 ^ 56 - 0.064\<bar> \<le> (1 / 10 ^ 16 :: real)
   \<and> \<bar>7025615418697974 / 2 ^ 52 - 1.56\<bar> \<le> (1 / 10 ^ 16 :: real)
   \<and> redondeo 1.56 = 7025615418697974 / 2 ^ 52"
proof (intro conjI)
  show "teorico p_exito_celda = Inr (0.936, 0.064, 1.56)"
    by (simp add: teorico_eq p_exito_celda_def power2_eq_square power3_eq_cube)
  show "1 - (1 - p_exito_celda) ^ 3 = 0.936"
    by (simp add: p_exito_celda_def power3_eq_cube)
  show "1 + (1 - p_exito_celda) + (1 - p_exito_celda)\<^sup>2 = 1.56"
    by (simp add: p_exito_celda_def power2_eq_square)
  show "teorico_r (\<lambda>x. x) p_exito_celda = teorico p_exito_celda"
    by (rule teorico_r_id)
  show "teorico_r redondeo p_exito_doble =
       Inr (131730289100587 / 2 ^ 47, 4611686018427389 / 2 ^ 56,
            7025615418697974 / 2 ^ 52)"
    by (rule teorico_doble)
  show "\<bar>131730289100587 / 2 ^ 47 - 0.936\<bar> \<le> (1 / 10 ^ 16 :: real)"
    by simp
  show "\<bar>4611686018427389 / 2 ^ 56 - 0.064\<bar> \<le> (1 / 10 ^ 16 :: real)"
    by simp
  show "\<bar>7025615418697974 / 2 ^ 52 - 1.56\<bar> \<le> (1 / 10 ^ 16 :: real)"
    by simp
  show "redondeo 1.56 = 7025615418697974 / 2 ^ 52"
    by (simp add: red)
qed

text \<open>
  The claim of C1 itself fails on the doubles: the success and failure probabilities
  the cell computes are not 0.936 and 0.064, nor the doubles nearest to them.
\<close>

theorem teorico_doble_contraejemplo:
  "teorico_r redondeo p_exito_doble =
     Inr (131730289100587 / 2 ^ 47, 4611686018427389 / 2 ^ 56, 7025615418697974 / 2 ^ 52)
   \<and> (131730289100587 / 2 ^ 47 :: real) \<noteq> 0.936
   \<and> (4611686018427389 / 2 ^ 56 :: real) \<noteq> 0.064
   \<and> redondeo 0.936 \<noteq> 131730289100587 / 2 ^ 47
   \<and> redondeo 0.064 \<noteq> 4611686018427389 / 2 ^ 56"
  by (simp add: teorico_doble) (simp add: red)

subsection \<open>The inversion in exact arithmetic\<close>










































text \<open>
  C8. Each row of the transition structure sums to 1: for each of the three transient
  states, the sum of its row of \<open>Q\<close> plus the sum of its row of \<open>R\<close> is 1, whatever the
  success probability.
\<close>

theorem filas_estocasticas:
  "map2 (\<lambda>q r. sum_list q + sum_list r) (Q p) (R p) = [1, 1, 1]
   \<and> (\<forall>i<3. sum_list (Q p ! i) + sum_list (R p ! i) = 1)"
  by (auto simp: Q_def R_def p_fallo_def less_Suc_eq eval_nat_numeral)

theorem filas_estocasticas_witness:
  "map2 (\<lambda>q r. sum_list q + sum_list r) (Q (3 / 5)) (R (3 / 5)) = [1, 1, 1]
   \<and> sum_list (Q (3 / 5) ! 2) + sum_list (R (3 / 5) ! 2) = 1"
  using filas_estocasticas [of "3 / 5"] by simp

subsection \<open>One trial\<close>

lemma range_1_4: "map int [1..<4] = [1, 2, 3]"
  by (simp add: upt_rec eval_nat_numeral)

lemma avanza_0: "avanza 0 g = g"
  by (simp add: avanza_def)

lemma avanza_avanza: "avanza a (avanza b g) = avanza (b + a) g"
  by (simp add: avanza_def add.assoc)

lemma uniforme_avanza: "uniforme (avanza k g) = uniforme g"
  by (simp add: uniforme_def avanza_def)

lemma intento_usuario_casos:
  "intento_usuario p g =
     (case primer_exito p g of Some i \<Rightarrow> (int i, avanza i g) | None \<Rightarrow> (0, avanza 3 g))"
  unfolding intento_usuario_def range_1_4
  by (simp add: primer_exito_def rng_random_def avanza_def)

lemma primer_exito_pos: "primer_exito p g = Some i \<Longrightarrow> 0 < i"
  by (auto simp: primer_exito_def split: if_splits)

lemma iteracion_casos:
  "iteracion p s =
     (case primer_exito p (rng s) of
        Some i \<Rightarrow> s\<lparr>rng := avanza i (rng s), total_intentos := total_intentos s + int i,
                     exitos := exitos s + 1\<rparr>
      | None \<Rightarrow> s\<lparr>rng := avanza 3 (rng s), total_intentos := total_intentos s + 3,
                  fracasos := fracasos s + 1\<rparr>)"
  by (auto simp: iteracion_def intento_usuario_casos split: option.splits
      dest: primer_exito_pos)

text \<open>
  C2. A trial draws for the attempts 1, 2, 3 in order. When the first draw below the
  success probability is that of attempt \<open>i\<close>, \<open>intento_usuario\<close> returns \<open>i\<close> and has
  taken exactly \<open>i\<close> draws, and the loop body counts one success and adds \<open>i\<close> to the
  attempts; when no draw is below it, \<open>intento_usuario\<close> returns 0 after three draws,
  and the loop body counts one failure and adds 3, the number of attempts allowed.
\<close>

theorem intento_usuario_primer_exito:
  "intento_usuario p (rng s) =
     (case primer_exito p (rng s) of
        Some i \<Rightarrow> (int i, avanza i (rng s))
      | None \<Rightarrow> (0, avanza 3 (rng s)))
   \<and> iteracion p s =
     (case primer_exito p (rng s) of
        Some i \<Rightarrow> s\<lparr>rng := avanza i (rng s), total_intentos := total_intentos s + int i,
                     exitos := exitos s + 1\<rparr>
      | None \<Rightarrow> s\<lparr>rng := avanza 3 (rng s), total_intentos := total_intentos s + 3,
                  fracasos := fracasos s + 1\<rparr>)"
  by (simp only: intento_usuario_casos iteracion_casos)

theorem intento_usuario_primer_exito_witness:
  "intento_usuario (1 / 2) (rng estado_cero) = (1, avanza 1 (rng estado_cero))
   \<and> iteracion (1 / 2) estado_cero =
       estado_cero\<lparr>rng := avanza 1 (rng estado_cero), total_intentos := 1, exitos := 1\<rparr>"
  using intento_usuario_primer_exito [of "1 / 2" estado_cero]
  by (simp add: primer_exito_def estado_cero_def)

subsection \<open>The loop\<close>

lemma primer_exito_uno: "uniforme g \<Longrightarrow> primer_exito 1 g = Some 1"
  by (simp add: primer_exito_def uniforme_def)

lemma primer_exito_no_positivo: "uniforme g \<Longrightarrow> p \<le> 0 \<Longrightarrow> primer_exito p g = None"
  by (auto simp: primer_exito_def uniforme_def not_less intro: order_trans)

lemma simular_uno:
  "uniforme (rng s) \<Longrightarrow>
   simular 1 k s =
     s\<lparr>rng := avanza k (rng s), total_intentos := total_intentos s + int k,
       exitos := exitos s + int k\<rparr>"
proof (induction k arbitrary: s)
  case 0
  then show ?case by (simp add: avanza_0)
next
  case (Suc k)
  have paso: "iteracion 1 s =
      s\<lparr>rng := avanza 1 (rng s), total_intentos := total_intentos s + 1,
        exitos := exitos s + 1\<rparr>"
    using Suc.prems by (simp add: iteracion_casos primer_exito_uno)
  have "uniforme (rng (iteracion 1 s))"
    using Suc.prems by (simp add: paso uniforme_avanza)
  from Suc.IH [OF this] show ?case
    by (simp add: paso avanza_avanza)
qed

lemma simular_no_positivo:
  "uniforme (rng s) \<Longrightarrow> p \<le> 0 \<Longrightarrow>
   simular p k s =
     s\<lparr>rng := avanza (3 * k) (rng s), total_intentos := total_intentos s + 3 * int k,
       fracasos := fracasos s + int k\<rparr>"
proof (induction k arbitrary: s)
  case 0
  then show ?case by (simp add: avanza_0)
next
  case (Suc k)
  have paso: "iteracion p s =
      s\<lparr>rng := avanza 3 (rng s), total_intentos := total_intentos s + 3,
        fracasos := fracasos s + 1\<rparr>"
    using Suc.prems by (simp add: iteracion_casos primer_exito_no_positivo)
  have "uniforme (rng (iteracion p s))"
    using Suc.prems by (simp add: paso uniforme_avanza)
  from Suc.IH [OF this Suc.prems(2)] show ?case
    by (simp add: paso avanza_avanza)
qed

lemma iteracion_contadores:
  "exitos (iteracion p s) + fracasos (iteracion p s) = exitos s + fracasos s + 1"
  by (simp add: iteracion_casos split: option.splits)

lemma simular_contadores:
  "exitos (simular p k s) + fracasos (simular p k s) = exitos s + fracasos s + int k"
  by (induction k arbitrary: s) (simp_all add: iteracion_contadores)

lemma inicio_eq:
  "inicio bg seed s =
     \<lparr>rng = default_rng bg seed, total_intentos = 0, exitos = 0, fracasos = 0\<rparr>"
  by (cases s) (simp add: inicio_def)

lemma monte_carlo_contadores:
  "exitos (monte_carlo bg seed p n s) + fracasos (monte_carlo bg seed p n s) = int (nat n)"
  by (simp add: monte_carlo_def simular_contadores inicio_eq)

text \<open>
  C9. Every pass of the loop adds one to exactly one of \<open>exitos\<close> and \<open>fracasos\<close>, so
  \<open>k\<close> passes add \<open>k\<close> to their sum; a run of \<open>num_pruebas\<close> trials (not negative) ends
  with \<open>exitos + fracasos = num_pruebas\<close>, and for a positive \<open>num_pruebas\<close> the
  reported empirical success and failure probabilities add up to 1 exactly. The cell's
  own run ends with \<open>exitos + fracasos = 1000000\<close>.
\<close>

theorem contadores_suman:
  "((exitos (iteracion p s) = exitos s + 1 \<and> fracasos (iteracion p s) = fracasos s)
     \<or> (exitos (iteracion p s) = exitos s \<and> fracasos (iteracion p s) = fracasos s + 1))
   \<and> exitos (simular p k s) + fracasos (simular p k s) = exitos s + fracasos s + int k
   \<and> (0 \<le> n \<longrightarrow>
        exitos (monte_carlo bg seed p n s) + fracasos (monte_carlo bg seed p n s) = n)
   \<and> (0 < n \<longrightarrow>
        (\<exists>pe pf m. resultados_simulados n (monte_carlo bg seed p n s) = Inr (pe, pf, m)
           \<and> pe + pf = 1))
   \<and> exitos (monte_carlo bg seed_celda p_exito_celda num_pruebas_celda s)
       + fracasos (monte_carlo bg seed_celda p_exito_celda num_pruebas_celda s) = 1000000"
proof (intro conjI impI)
  show "exitos (monte_carlo bg seed_celda p_exito_celda num_pruebas_celda s)
       + fracasos (monte_carlo bg seed_celda p_exito_celda num_pruebas_celda s) = 1000000"
    by (simp add: monte_carlo_contadores num_pruebas_celda_def)
next
  show "(exitos (iteracion p s) = exitos s + 1 \<and> fracasos (iteracion p s) = fracasos s)
     \<or> (exitos (iteracion p s) = exitos s \<and> fracasos (iteracion p s) = fracasos s + 1)"
    by (simp add: iteracion_casos split: option.splits)
next
  show "exitos (simular p k s) + fracasos (simular p k s) = exitos s + fracasos s + int k"
    by (rule simular_contadores)
next
  assume "0 \<le> n"
  then show "exitos (monte_carlo bg seed p n s) + fracasos (monte_carlo bg seed p n s) = n"
    by (simp add: monte_carlo_contadores)
next
  assume n: "0 < n"
  let ?s = "monte_carlo bg seed p n s"
  have "exitos ?s + fracasos ?s = n"
    using n by (simp add: monte_carlo_contadores)
  then have "real_of_int (exitos ?s) + real_of_int (fracasos ?s) = real_of_int n"
    by (metis of_int_add)
  then have "real_of_int (exitos ?s) / real_of_int n
      + real_of_int (fracasos ?s) / real_of_int n = 1"
    using n by (simp add: add_divide_distrib [symmetric])
  then show "\<exists>pe pf m. resultados_simulados n ?s = Inr (pe, pf, m) \<and> pe + pf = 1"
    using n by (simp add: resultados_simulados_def division_def)
qed

theorem contadores_suman_witness:
  "exitos (monte_carlo (\<lambda>seed k. 1 / 2) 123 (3 / 5) 2 estado_cero)
     + fracasos (monte_carlo (\<lambda>seed k. 1 / 2) 123 (3 / 5) 2 estado_cero) = 2
   \<and> (\<exists>pe pf m.
        resultados_simulados 2 (monte_carlo (\<lambda>seed k. 1 / 2) 123 (3 / 5) 2 estado_cero)
          = Inr (pe, pf, m) \<and> pe + pf = 1)"
  using contadores_suman [of "3 / 5" estado_cero 0 2 "\<lambda>seed k. 1 / 2" 123]
  by simp

subsection \<open>Two runs\<close>

lemma primer_exito_coinciden:
  assumes "coinciden 3 g1 g2"
  shows "primer_exito p g1 = primer_exito p g2"
proof -
  have k: "\<And>k. k < 3 \<Longrightarrow> fuente g1 (pos g1 + k) = fuente g2 (pos g2 + k)"
    using assms unfolding coinciden_def by blast
  from k [of 0] k [of 1] k [of 2] show ?thesis by (simp add: primer_exito_def)
qed

lemma primer_exito_le: "primer_exito p g = Some i \<Longrightarrow> i \<le> 3"
  by (auto simp: primer_exito_def split: if_splits)

lemma coinciden_avanza:
  assumes "coinciden (3 + m) g1 g2" "i \<le> 3"
  shows "coinciden m (avanza i g1) (avanza i g2)"
  unfolding coinciden_def
proof (intro allI impI)
  fix k assume "k < m"
  then have "i + k < 3 + m" using assms(2) by simp
  then have "fuente g1 (pos g1 + (i + k)) = fuente g2 (pos g2 + (i + k))"
    using assms(1) unfolding coinciden_def by blast
  then show "fuente (avanza i g1) (pos (avanza i g1) + k)
      = fuente (avanza i g2) (pos (avanza i g2) + k)"
    by (simp add: avanza_def add.assoc)
qed

lemma coinciden_mono: "coinciden m g1 g2 \<Longrightarrow> k \<le> m \<Longrightarrow> coinciden k g1 g2"
  by (simp add: coinciden_def)

lemma iteracion_coinciden:
  assumes "mismos_contadores s1 s2" "coinciden (3 + m) (rng s1) (rng s2)"
  shows "mismos_contadores (iteracion p s1) (iteracion p s2)
         \<and> coinciden m (rng (iteracion p s1)) (rng (iteracion p s2))"
proof -
  have pe: "primer_exito p (rng s1) = primer_exito p (rng s2)"
    by (rule primer_exito_coinciden) (rule coinciden_mono [OF assms(2)], simp)
  show ?thesis
  proof (cases "primer_exito p (rng s2)")
    case None
    then show ?thesis using assms pe coinciden_avanza [OF assms(2), of 3]
      by (simp add: iteracion_casos mismos_contadores_def avanza_def)
  next
    case (Some i)
    then have "i \<le> 3" by (rule primer_exito_le)
    then show ?thesis using assms pe Some coinciden_avanza [OF assms(2), of i]
      by (simp add: iteracion_casos mismos_contadores_def avanza_def)
  qed
qed

lemma simular_coinciden:
  "mismos_contadores s1 s2 \<Longrightarrow> coinciden (3 * m) (rng s1) (rng s2) \<Longrightarrow>
   mismos_contadores (simular p m s1) (simular p m s2)"
proof (induction m arbitrary: s1 s2)
  case 0
  then show ?case by simp
next
  case (Suc m)
  have "coinciden (3 + 3 * m) (rng s1) (rng s2)" using Suc.prems(2) by simp
  from iteracion_coinciden [OF Suc.prems(1) this, of p] Suc.IH show ?case by simp
qed

text \<open>
  C4, as the code has it. The random source is the module-level generator
  \<^verbatim>\<open>rng\<close>: \<^verbatim>\<open>intento_usuario\<close> is not given it but reads and advances it, so
  the result of a call is fixed by the next three values of the generator, not by
  the argument alone. The simulation as a whole is deterministic: each run makes the
  generator anew from the seed and resets the counters, so two runs with the same
  seed, success probability and number of trials end alike whatever an earlier run
  left in the variables: in \<^verbatim>\<open>ValueError\<close> for a negative seed, and otherwise in
  the same state, with the same three counters. The counters depend on the seed only
  through the first \<open>3 * num_pruebas\<close> values of its sequence.
\<close>

theorem monte_carlo_determinista:
  "celda_monte_carlo bg seed p n s1 = celda_monte_carlo bg seed p n s2
   \<and> (seed < 0 \<longrightarrow> celda_monte_carlo bg seed p n s1 = Inl ValueError)
   \<and> (0 \<le> seed \<longrightarrow>
        celda_monte_carlo bg seed p n s1 = Inr (monte_carlo bg seed p n s2))
   \<and> ((\<forall>k<3 * nat n. bg1 seed k = bg2 seed k) \<longrightarrow>
        mismos_contadores (monte_carlo bg1 seed p n s1) (monte_carlo bg2 seed p n s2))
   \<and> (coinciden 3 g1 g2 \<longrightarrow> fst (intento_usuario p g1) = fst (intento_usuario p g2))"
proof (intro conjI impI)
  have igual: "monte_carlo bg seed p n s1 = monte_carlo bg seed p n s2"
    by (simp add: monte_carlo_def inicio_eq)
  then show "celda_monte_carlo bg seed p n s1 = celda_monte_carlo bg seed p n s2"
    by (simp add: celda_monte_carlo_def)
  show "celda_monte_carlo bg seed p n s1 = Inl ValueError" if "seed < 0"
    using that by (simp add: celda_monte_carlo_def)
  show "celda_monte_carlo bg seed p n s1 = Inr (monte_carlo bg seed p n s2)"
    if "0 \<le> seed"
    using that igual by (simp add: celda_monte_carlo_def)
next
  assume "\<forall>k<3 * nat n. bg1 seed k = bg2 seed k"
  then have "coinciden (3 * nat n) (rng (inicio bg1 seed s1)) (rng (inicio bg2 seed s2))"
    by (simp add: coinciden_def inicio_eq default_rng_def)
  moreover have "mismos_contadores (inicio bg1 seed s1) (inicio bg2 seed s2)"
    by (simp add: mismos_contadores_def inicio_eq default_rng_def)
  ultimately show
    "mismos_contadores (monte_carlo bg1 seed p n s1) (monte_carlo bg2 seed p n s2)"
    unfolding monte_carlo_def by (rule simular_coinciden [rotated])
next
  assume "coinciden 3 g1 g2"
  then have "primer_exito p g1 = primer_exito p g2"
    by (rule primer_exito_coinciden)
  then show "fst (intento_usuario p g1) = fst (intento_usuario p g2)"
    by (simp add: intento_usuario_casos split: option.splits)
qed

theorem monte_carlo_determinista_witness:
  "celda_monte_carlo (\<lambda>seed k. 1 / 2) 123 (3 / 5) 1 estado_cero
     = Inr (monte_carlo (\<lambda>seed k. 1 / 2) 123 (3 / 5) 1 (estado_cero\<lparr>exitos := 7\<rparr>))
   \<and> celda_monte_carlo (\<lambda>seed k. 1 / 2) (- 1) (3 / 5) 1 estado_cero = Inl ValueError
   \<and> mismos_contadores
        (monte_carlo (\<lambda>seed k. if k < 3 then 9 / 10 else 0) 123 (3 / 5) 1 estado_cero)
        (monte_carlo (\<lambda>seed k. if k < 3 then 9 / 10 else 1 / 2) 123 (3 / 5) 1
           (estado_cero\<lparr>exitos := 7\<rparr>))
   \<and> fst (intento_usuario (3 / 5) \<lparr>fuente = (\<lambda>k. if k < 3 then 9 / 10 else 0), pos = 0\<rparr>)
       = fst (intento_usuario (3 / 5)
               \<lparr>fuente = (\<lambda>k. if k < 3 then 9 / 10 else 1 / 2), pos = 0\<rparr>)"
  using monte_carlo_determinista [of "\<lambda>seed k. 1 / 2" 123 "3 / 5" 1 estado_cero
      "estado_cero\<lparr>exitos := 7\<rparr>" "\<lambda>seed k. if k < 3 then 9 / 10 else 0"
      "\<lambda>seed k. if k < 3 then 9 / 10 else 1 / 2"
      "\<lparr>fuente = (\<lambda>k. if k < 3 then 9 / 10 else 0), pos = 0\<rparr>"
      "\<lparr>fuente = (\<lambda>k. if k < 3 then 9 / 10 else 1 / 2), pos = 0\<rparr>"]
    monte_carlo_determinista [of "\<lambda>seed k. 1 / 2" "- 1" "3 / 5" 1 estado_cero estado_cero]
  by (simp add: coinciden_def celda_monte_carlo_def)

text \<open>
  The claim of C4 itself fails in its first half, that the random source is explicit:
  two calls of \<^verbatim>\<open>intento_usuario\<close> with the same argument, one after the other,
  return 2 and then 1, because the second finds the generator where the first left
  it.
\<close>

theorem rng_implicito_contraejemplo:
  "fst (intento_usuario (1 / 2)
         \<lparr>fuente = (\<lambda>k. if k = 0 then 9 / 10 else 1 / 10), pos = 0\<rparr>) = 2
   \<and> fst (intento_usuario (1 / 2)
           (snd (intento_usuario (1 / 2)
                  \<lparr>fuente = (\<lambda>k. if k = 0 then 9 / 10 else 1 / 10), pos = 0\<rparr>))) = 1"
  by (simp add: intento_usuario_casos primer_exito_def avanza_def)

subsection \<open>The boundaries of the success probability\<close>

text \<open>
  C7. With success probability 1 the analytic part returns the success probability 1
  and the expected number of attempts 1; and since every draw is below 1, every trial
  returns 1 after one draw: \<open>k\<close> passes of the loop count \<open>k\<close> successes and \<open>k\<close>
  attempts, and a whole run counts no failure.
\<close>

theorem p_uno:
  assumes "uniforme (rng s)" and "uniforme (default_rng bg seed)"
  shows "teorico 1 = Inr (1, 0, 1)
    \<and> intento_usuario 1 (rng s) = (1, avanza 1 (rng s))
    \<and> simular 1 k s =
        s\<lparr>rng := avanza k (rng s), total_intentos := total_intentos s + int k,
          exitos := exitos s + int k\<rparr>
    \<and> monte_carlo bg seed 1 n s =
        \<lparr>rng = avanza (nat n) (default_rng bg seed), total_intentos = int (nat n),
         exitos = int (nat n), fracasos = 0\<rparr>"
proof (intro conjI)
  show "teorico 1 = Inr (1, 0, 1)"
    by (simp add: teorico_eq)
  show "intento_usuario 1 (rng s) = (1, avanza 1 (rng s))"
    using assms(1) by (simp add: intento_usuario_casos primer_exito_uno)
  show "simular 1 k s =
        s\<lparr>rng := avanza k (rng s), total_intentos := total_intentos s + int k,
          exitos := exitos s + int k\<rparr>"
    using assms(1) by (rule simular_uno)
  have "uniforme (rng (inicio bg seed s))"
    using assms(2) by (simp add: inicio_eq)
  then show "monte_carlo bg seed 1 n s =
        \<lparr>rng = avanza (nat n) (default_rng bg seed), total_intentos = int (nat n),
         exitos = int (nat n), fracasos = 0\<rparr>"
    unfolding monte_carlo_def by (simp add: simular_uno) (simp add: inicio_eq)
qed

theorem p_uno_witness:
  "uniforme (rng estado_cero) \<and> uniforme (default_rng (\<lambda>seed k. 1 / 2) 123)
   \<and> teorico 1 = Inr (1, 0, 1)
   \<and> intento_usuario 1 (rng estado_cero) = (1, avanza 1 (rng estado_cero))
   \<and> exitos (simular 1 2 estado_cero) = 2
   \<and> total_intentos (monte_carlo (\<lambda>seed k. 1 / 2) 123 1 2 estado_cero) = 2
   \<and> fracasos (monte_carlo (\<lambda>seed k. 1 / 2) 123 1 2 estado_cero) = 0"
proof -
  have u1: "uniforme (rng estado_cero)"
    by (simp add: uniforme_def estado_cero_def)
  have u2: "uniforme (default_rng (\<lambda>seed k. 1 / 2) 123)"
    by (simp add: uniforme_def default_rng_def)
  show ?thesis
    using u1 u2 p_uno [OF u1 u2, of 2 2] by (simp add: estado_cero_def)
qed

text \<open>
  C10, as the code has it. With a success probability of 0 or below no draw, being at
  least 0, is below it: every trial returns 0 after three draws, \<open>k\<close> passes of the
  loop count \<open>k\<close> failures and \<open>3 * k\<close> attempts, and a run of a positive number of
  trials reports the empirical success probability 0, failure probability 1 and mean
  attempts 3, without error. The analytic part raises no error either, in exact
  arithmetic and in doubles; it returns 0, 1 and 3 at the success probability 0, in
  both, and not below 0.
\<close>

theorem p_no_positivo:
  assumes "p \<le> 0" and "uniforme (rng s)" and "uniforme (default_rng bg seed)"
  shows "intento_usuario p (rng s) = (0, avanza 3 (rng s))
    \<and> simular p k s =
        s\<lparr>rng := avanza (3 * k) (rng s), total_intentos := total_intentos s + 3 * int k,
          fracasos := fracasos s + int k\<rparr>
    \<and> (0 < n \<longrightarrow> resultados_simulados n (monte_carlo bg seed p n s) = Inr (0, 1, 3))
    \<and> teorico 0 = Inr (0, 1, 3)
    \<and> teorico_r redondeo 0 = Inr (0, 1, 3)
    \<and> (\<forall>e. teorico p \<noteq> Inl e)
    \<and> (\<forall>e. teorico_r redondeo p \<noteq> Inl e)"
proof (intro conjI impI)
  show "intento_usuario p (rng s) = (0, avanza 3 (rng s))"
    using assms(1,2) by (simp add: intento_usuario_casos primer_exito_no_positivo)
  show "simular p k s =
        s\<lparr>rng := avanza (3 * k) (rng s), total_intentos := total_intentos s + 3 * int k,
          fracasos := fracasos s + int k\<rparr>"
    using assms(2,1) by (rule simular_no_positivo)
  show "teorico 0 = Inr (0, 1, 3)"
    by (simp add: teorico_eq)
  show "teorico_r redondeo 0 = Inr (0, 1, 3)"
    by (simp add: teorico_r_def N_r_def I_menos_Q_r_def resta_r_def Q_r_def R_r_def
        p_fallo_r_def linalg_inv_r_def identity_def upt_rec eval_nat_numeral
        eliminar_r_def buscar_pivote_def escala_r_def combina_r_def matmul_r_def
        vecmat_r_def dot_r_def ones_def redondeo_0 redondeo_1)
      (simp add: red)
  show "\<forall>e. teorico p \<noteq> Inl e"
    by (simp add: teorico_eq)
  show "\<forall>e. teorico_r redondeo p \<noteq> Inl e"
    using teorico_r_sin_error [OF redondeo_0 redondeo_1, of p] by auto
next
  assume n: "0 < n"
  have "uniforme (rng (inicio bg seed s))"
    using assms(3) by (simp add: inicio_eq)
  then have "monte_carlo bg seed p n s =
      \<lparr>rng = avanza (3 * nat n) (default_rng bg seed), total_intentos = 3 * int (nat n),
       exitos = 0, fracasos = int (nat n)\<rparr>"
    unfolding monte_carlo_def using assms(1)
    by (simp add: simular_no_positivo) (simp add: inicio_eq)
  then show "resultados_simulados n (monte_carlo bg seed p n s) = Inr (0, 1, 3)"
    using n by (simp add: resultados_simulados_def division_def)
qed

theorem p_no_positivo_witness:
  "(0 :: real) \<le> 0 \<and> uniforme (rng estado_cero)
   \<and> uniforme (default_rng (\<lambda>seed k. 1 / 2) 123)
   \<and> intento_usuario 0 (rng estado_cero) = (0, avanza 3 (rng estado_cero))
   \<and> fracasos (simular 0 2 estado_cero) = 2
   \<and> total_intentos (simular 0 2 estado_cero) = 6
   \<and> resultados_simulados 2 (monte_carlo (\<lambda>seed k. 1 / 2) 123 0 2 estado_cero)
       = Inr (0, 1, 3)
   \<and> teorico 0 = Inr (0, 1, 3)"
proof -
  have u1: "uniforme (rng estado_cero)"
    by (simp add: uniforme_def estado_cero_def)
  have u2: "uniforme (default_rng (\<lambda>seed k. 1 / 2) 123)"
    by (simp add: uniforme_def default_rng_def)
  have p: "(0 :: real) \<le> 0" by simp
  show ?thesis
    using u1 u2 p_no_positivo [OF p u1 u2, of 2 2] by (simp add: estado_cero_def)
qed

text \<open>
  The analytic half of C10 does not reach below 0: at the success probability \<open>-1\<close>
  the analytic part returns \<open>-7\<close>, 8 and 7, not 0, 1 and 3.
\<close>

theorem p_negativo_contraejemplo:
  "(-1 :: real) \<le> 0 \<and> teorico (-1) = Inr (-7, 8, 7) \<and> teorico (-1) \<noteq> Inr (0, 1, 3)"
  by (simp add: teorico_eq power2_eq_square power3_eq_cube)

subsection \<open>Parameters outside the specified ranges\<close>

text \<open>
  C5, as the code has it. Nothing is validated and no error of the kind exists. The
  analytic part raises no error for any success probability, also 0 and below and
  above 1, in exact arithmetic and in doubles (which numbers it returns there is not
  stated). With a seed the library accepts, the simulation runs and returns its three
  empirical numbers for every success probability and every number of trials other
  than 0 (a negative one runs no trial); with 0 trials the first division of the
  report raises \<^verbatim>\<open>ZeroDivisionError\<close>. The number of attempts is the literal 3 and
  cannot be out of range.
\<close>

theorem sin_validacion:
  "(\<forall>e. teorico p \<noteq> Inl e)
   \<and> (\<forall>e. teorico_r redondeo p \<noteq> Inl e)
   \<and> (0 \<le> seed \<longrightarrow>
        celda_monte_carlo bg seed p n s = Inr (monte_carlo bg seed p n s))
   \<and> (n \<noteq> 0 \<longrightarrow>
        (\<exists>pe pf m. resultados_simulados n (monte_carlo bg seed p n s) = Inr (pe, pf, m)))
   \<and> resultados_simulados 0 (monte_carlo bg seed p 0 s) = Inl ZeroDivisionError"
  using teorico_r_sin_error [OF redondeo_0 redondeo_1, of p]
  by (auto simp: teorico_eq resultados_simulados_def division_def celda_monte_carlo_def)

theorem sin_validacion_witness:
  "teorico 2 \<noteq> Inl LinAlgError
   \<and> teorico_r redondeo 2 \<noteq> Inl LinAlgError
   \<and> celda_monte_carlo (\<lambda>seed k. 1 / 2) 123 2 (-1) estado_cero
       = Inr (monte_carlo (\<lambda>seed k. 1 / 2) 123 2 (-1) estado_cero)
   \<and> (\<exists>pe pf m. resultados_simulados (-1)
          (monte_carlo (\<lambda>seed k. 1 / 2) 123 2 (-1) estado_cero) = Inr (pe, pf, m))
   \<and> resultados_simulados 0 (monte_carlo (\<lambda>seed k. 1 / 2) 123 2 0 estado_cero)
       = Inl ZeroDivisionError"
  using sin_validacion [of 2 123 "\<lambda>seed k. 1 / 2" "-1" estado_cero]
  by simp

text \<open>
  The claim of C5 itself fails: the success probabilities 0 and 2 and the number of
  trials \<open>-1\<close> all give numbers, not an error.
\<close>

theorem sin_validacion_contraejemplo:
  "teorico 0 = Inr (0, 1, 3)
   \<and> teorico 2 = Inr (2, -1, 1)
   \<and> resultados_simulados 1 (monte_carlo (\<lambda>seed k. 1 / 2) 123 0 1 estado_cero)
       = Inr (0, 1, 3)
   \<and> resultados_simulados 1 (monte_carlo (\<lambda>seed k. 1 / 2) 123 2 1 estado_cero)
       = Inr (1, 0, 1)
   \<and> resultados_simulados (-1)
        (monte_carlo (\<lambda>seed k. 1 / 2) 123 (3 / 5) (-1) estado_cero)
       = Inr (0, 0, 0)"
  by (simp add: teorico_eq power2_eq_square power3_eq_cube resultados_simulados_def
      division_def monte_carlo_def inicio_eq default_rng_def iteracion_casos
      primer_exito_def)

subsection \<open>The inversion of the chain's matrix\<close>







end
